theory Spec2Isabelle
  imports Main "HOL-Library.Word" "HOL-Library.Sublist" "HOL-Library.Multiset" "HOL-Library.AList"
begin

unbundle bit_operations_syntax

section \<open>Python text primitives\<close>

text \<open>
  A Python \<^verbatim>\<open>str\<close> is modelled as a \<^typ>\<open>string\<close> whose characters are the code
  points 0..255.  On that range \<^verbatim>\<open>str.lower\<close> works character by character, and the
  classes \<^verbatim>\<open>\s\<close> (equal to \<^verbatim>\<open>str.isspace\<close>) and \<^verbatim>\<open>\w\<close> of the \<^verbatim>\<open>re\<close>
  module are the ranges written out below.
\<close>

definition py_isspace :: "char \<Rightarrow> bool" where
  "py_isspace c =
     (let n = (of_char c :: nat)
      in (9 \<le> n \<and> n \<le> 13) \<or> (28 \<le> n \<and> n \<le> 32) \<or> n = 133 \<or> n = 160)"

definition re_word_char :: "char \<Rightarrow> bool" where
  "re_word_char c =
     (let n = (of_char c :: nat)
      in (48 \<le> n \<and> n \<le> 57) \<or> (65 \<le> n \<and> n \<le> 90) \<or> n = 95 \<or> (97 \<le> n \<and> n \<le> 122)
         \<or> n = 170 \<or> n = 178 \<or> n = 179 \<or> n = 181 \<or> n = 185 \<or> n = 186
         \<or> (188 \<le> n \<and> n \<le> 190) \<or> (192 \<le> n \<and> n \<le> 214)
         \<or> (216 \<le> n \<and> n \<le> 246) \<or> (248 \<le> n \<and> n \<le> 255))"

definition py_lower_char :: "char \<Rightarrow> char" where
  "py_lower_char c =
     (let n = (of_char c :: nat)
      in if (65 \<le> n \<and> n \<le> 90) \<or> (192 \<le> n \<and> n \<le> 222 \<and> n \<noteq> 215)
         then char_of (n + 32) else c)"

text \<open>\<^verbatim>\<open>s.lower()\<close>\<close>

definition py_lower :: "string \<Rightarrow> string" where
  "py_lower s = map py_lower_char s"

text \<open>\<^verbatim>\<open>s.strip()\<close>\<close>

definition py_strip :: "string \<Rightarrow> string" where
  "py_strip s = rev (dropWhile py_isspace (rev (dropWhile py_isspace s)))"

text \<open>\<^verbatim>\<open>s.split()\<close>: the maximal runs of non-space characters, in order.\<close>

fun split_acc :: "string \<Rightarrow> string \<Rightarrow> string list" where
  "split_acc cur [] = (if cur = [] then [] else [cur])"
| "split_acc cur (c # cs) =
     (if py_isspace c
      then (if cur = [] then split_acc [] cs else cur # split_acc [] cs)
      else split_acc (cur @ [c]) cs)"

definition py_split :: "string \<Rightarrow> string list" where
  "py_split s = split_acc [] s"

text \<open>\<^verbatim>\<open>s.startswith(p)\<close> and the substring test \<^verbatim>\<open>p in s\<close>.\<close>

fun starts_with :: "string \<Rightarrow> string \<Rightarrow> bool" where
  "starts_with [] s = True"
| "starts_with (p # ps) [] = False"
| "starts_with (p # ps) (c # cs) = (p = c \<and> starts_with ps cs)"

fun py_in :: "string \<Rightarrow> string \<Rightarrow> bool" where
  "py_in p [] = (p = [])"
| "py_in p (c # cs) = (starts_with p (c # cs) \<or> py_in p cs)"

text \<open>\<^verbatim>\<open>re.sub(r'[^\w\s]', '', s)\<close>\<close>

definition strip_punctuation :: "string \<Rightarrow> string" where
  "strip_punctuation s = filter (\<lambda>c. re_word_char c \<or> py_isspace c) s"

text \<open>
  \<^verbatim>\<open>re.sub(r'\s+', ' ', s)\<close>: every maximal run of white space becomes one blank.
  The flag says whether the previous character belonged to a run.
\<close>

fun collapse_ws :: "bool \<Rightarrow> string \<Rightarrow> string" where
  "collapse_ws in_run [] = []"
| "collapse_ws in_run (c # cs) =
     (if py_isspace c
      then (if in_run then collapse_ws True cs else CHR '' '' # collapse_ws True cs)
      else c # collapse_ws False cs)"

definition collapse_whitespace :: "string \<Rightarrow> string" where
  "collapse_whitespace s = collapse_ws False s"

text \<open>\<^verbatim>\<open>xs[:n]\<close> for an integer \<open>n\<close>: a negative bound counts from the end.\<close>

definition py_slice_to :: "int \<Rightarrow> 'a list \<Rightarrow> 'a list" where
  "py_slice_to n xs = (if 0 \<le> n then take (nat n) xs else take (length xs - nat (- n)) xs)"

text \<open>\<^verbatim>\<open>xs.sort(key=k, reverse=True)\<close>: descending by key, equal keys keep their order.\<close>

definition py_sort_desc :: "('a \<Rightarrow> int) \<Rightarrow> 'a list \<Rightarrow> 'a list" where
  "py_sort_desc k xs = sort_key (\<lambda>x. - k x) xs"

section \<open>hashlib.md5\<close>

text \<open>\<^verbatim>\<open>s.encode()\<close>: UTF-8, two bytes for a code point above 127.\<close>

definition utf8_char :: "char \<Rightarrow> 8 word list" where
  "utf8_char c =
     (let n = (of_char c :: nat)
      in if n < 128 then [of_nat n] else [of_nat (192 + n div 64), of_nat (128 + n mod 64)])"

definition py_encode :: "string \<Rightarrow> 8 word list" where
  "py_encode s = concat (map utf8_char s)"

definition md5_K :: "32 word list" where
  "md5_K =
    [0xd76aa478, 0xe8c7b756, 0x242070db, 0xc1bdceee, 0xf57c0faf, 0x4787c62a, 0xa8304613, 0xfd469501,
     0x698098d8, 0x8b44f7af, 0xffff5bb1, 0x895cd7be, 0x6b901122, 0xfd987193, 0xa679438e, 0x49b40821,
     0xf61e2562, 0xc040b340, 0x265e5a51, 0xe9b6c7aa, 0xd62f105d, 0x02441453, 0xd8a1e681, 0xe7d3fbc8,
     0x21e1cde6, 0xc33707d6, 0xf4d50d87, 0x455a14ed, 0xa9e3e905, 0xfcefa3f8, 0x676f02d9, 0x8d2a4c8a,
     0xfffa3942, 0x8771f681, 0x6d9d6122, 0xfde5380c, 0xa4beea44, 0x4bdecfa9, 0xf6bb4b60, 0xbebfbc70,
     0x289b7ec6, 0xeaa127fa, 0xd4ef3085, 0x04881d05, 0xd9d4d039, 0xe6db99e5, 0x1fa27cf8, 0xc4ac5665,
     0xf4292244, 0x432aff97, 0xab9423a7, 0xfc93a039, 0x655b59c3, 0x8f0ccc92, 0xffeff47d, 0x85845dd1,
     0x6fa87e4f, 0xfe2ce6e0, 0xa3014314, 0x4e0811a1, 0xf7537e82, 0xbd3af235, 0x2ad7d2bb, 0xeb86d391]"

definition md5_shift :: "nat list" where
  "md5_shift =
    [7, 12, 17, 22, 7, 12, 17, 22, 7, 12, 17, 22, 7, 12, 17, 22,
     5, 9, 14, 20, 5, 9, 14, 20, 5, 9, 14, 20, 5, 9, 14, 20,
     4, 11, 16, 23, 4, 11, 16, 23, 4, 11, 16, 23, 4, 11, 16, 23,
     6, 10, 15, 21, 6, 10, 15, 21, 6, 10, 15, 21, 6, 10, 15, 21]"

type_synonym md5_state = "32 word \<times> 32 word \<times> 32 word \<times> 32 word"

definition rotl32 :: "nat \<Rightarrow> 32 word \<Rightarrow> 32 word" where
  "rotl32 n w = push_bit n w OR drop_bit (32 - n) w"

fun md5_round :: "32 word list \<Rightarrow> nat \<Rightarrow> md5_state \<Rightarrow> md5_state" where
  "md5_round M i (A, B, C, D) =
     (let (F, g) =
        (if i < 16 then ((B AND C) OR (NOT B AND D), i)
         else if i < 32 then ((D AND B) OR (NOT D AND C), (5 * i + 1) mod 16)
         else if i < 48 then (B XOR C XOR D, (3 * i + 5) mod 16)
         else (C XOR (B OR NOT D), (7 * i) mod 16));
          F' = F + A + md5_K ! i + M ! g
      in (D, B + rotl32 (md5_shift ! i) F', B, C))"

fun le_word :: "8 word list \<Rightarrow> 32 word" where
  "le_word [b0, b1, b2, b3] =
     ucast b0 OR push_bit 8 (ucast b1) OR push_bit 16 (ucast b2) OR push_bit 24 (ucast b3)"
| "le_word bs = 0"

fun chunks :: "nat \<Rightarrow> 'a list \<Rightarrow> 'a list list" where
  "chunks n [] = []"
| "chunks n (x # xs) =
     (if n = 0 then [x # xs] else take n (x # xs) # chunks n (drop n (x # xs)))"

definition md5_block :: "8 word list \<Rightarrow> md5_state \<Rightarrow> md5_state" where
  "md5_block blk st =
     (let M = map le_word (chunks 4 blk);
          (a0, b0, c0, d0) = st;
          (A, B, C, D) = fold (md5_round M) [0..<64] st
      in (a0 + A, b0 + B, c0 + C, d0 + D))"

definition md5_pad :: "8 word list \<Rightarrow> 8 word list" where
  "md5_pad msg =
     (let n = length msg;
          z = (119 - n mod 64) mod 64;
          bits = (word_of_nat (8 * n) :: 64 word)
      in msg @ [0x80] @ replicate z 0 @ map (\<lambda>k. ucast (drop_bit (8 * k) bits)) [0..<8])"

definition le_bytes :: "32 word \<Rightarrow> 8 word list" where
  "le_bytes w = map (\<lambda>k. ucast (drop_bit (8 * k) w)) [0..<4]"

definition md5_digest :: "8 word list \<Rightarrow> 8 word list" where
  "md5_digest msg =
     (let (a, b, c, d) =
        fold md5_block (chunks 64 (md5_pad msg)) (0x67452301, 0xefcdab89, 0x98badcfe, 0x10325476)
      in le_bytes a @ le_bytes b @ le_bytes c @ le_bytes d)"

definition hex_digit :: "nat \<Rightarrow> char" where
  "hex_digit n = (if n < 10 then char_of (48 + n) else char_of (87 + n))"

definition hex_byte :: "8 word \<Rightarrow> string" where
  "hex_byte b = [hex_digit (unat b div 16), hex_digit (unat b mod 16)]"

text \<open>\<^verbatim>\<open>hashlib.md5(s.encode()).hexdigest()\<close>\<close>

definition md5_hexdigest :: "string \<Rightarrow> string" where
  "md5_hexdigest s = concat (map hex_byte (md5_digest (py_encode s)))"

section \<open>datetime\<close>

text \<open>
  \<^verbatim>\<open>datetime.strptime(s, '%Y-%m-%d')\<close>.  The library matches the regular expression
  \<^verbatim>\<open>(\d\d\d\d)-(1[0-2]|0[1-9]|[1-9])-(3[0-1]|[1-2]\d|0[1-9]|[1-9]| [1-9])\<close> at the
  start of the text, raises \<^verbatim>\<open>ValueError\<close> when it does not match or when text remains,
  and again when the three numbers are not a date of the proleptic Gregorian calendar
  (years 1 to 9999).  \<open>None\<close> stands for the raised \<^verbatim>\<open>ValueError\<close>; a parsed date is
  given by its ordinal (\<^verbatim>\<open>date.toordinal()\<close>, day 1 is 0001-01-01).
\<close>

definition is_digit :: "char \<Rightarrow> bool" where
  "is_digit c = (let n = (of_char c :: int) in 48 \<le> n \<and> n \<le> 57)"

definition digit_val :: "char \<Rightarrow> int" where
  "digit_val c = of_char c - 48"

fun month_token :: "string \<Rightarrow> int option" where
  "month_token [a] = (if is_digit a \<and> a \<noteq> CHR ''0'' then Some (digit_val a) else None)"
| "month_token [a, b] =
     (if a = CHR ''1'' \<and> b \<in> {CHR ''0'', CHR ''1'', CHR ''2''} then Some (10 + digit_val b)
      else if a = CHR ''0'' \<and> is_digit b \<and> b \<noteq> CHR ''0'' then Some (digit_val b)
      else None)"
| "month_token s = None"

fun day_token :: "string \<Rightarrow> int option" where
  "day_token [a] = (if is_digit a \<and> a \<noteq> CHR ''0'' then Some (digit_val a) else None)"
| "day_token [a, b] =
     (if a = CHR ''3'' \<and> b \<in> {CHR ''0'', CHR ''1''} then Some (30 + digit_val b)
      else if a \<in> {CHR ''1'', CHR ''2''} \<and> is_digit b then Some (10 * digit_val a + digit_val b)
      else if a \<in> {CHR ''0'', CHR '' ''} \<and> is_digit b \<and> b \<noteq> CHR ''0'' then Some (digit_val b)
      else None)"
| "day_token s = None"

definition is_leap :: "int \<Rightarrow> bool" where
  "is_leap y = (y mod 4 = 0 \<and> (y mod 100 \<noteq> 0 \<or> y mod 400 = 0))"

definition days_in_month :: "int \<Rightarrow> int \<Rightarrow> int" where
  "days_in_month y m =
     (if m = 2 then (if is_leap y then 29 else 28)
      else if m \<in> {4, 6, 9, 11} then 30 else 31)"

definition toordinal :: "int \<Rightarrow> int \<Rightarrow> int \<Rightarrow> int" where
  "toordinal y m d =
     (y - 1) * 365 + (y - 1) div 4 - (y - 1) div 100 + (y - 1) div 400
     + sum_list (map (days_in_month y) [1..m - 1]) + d"

definition make_date :: "int \<Rightarrow> int \<Rightarrow> int \<Rightarrow> int option" where
  "make_date y m d =
     (if 1 \<le> y \<and> 1 \<le> m \<and> m \<le> 12 \<and> 1 \<le> d \<and> d \<le> days_in_month y m
      then Some (toordinal y m d) else None)"

fun strptime_ymd :: "string \<Rightarrow> int option" where
  "strptime_ymd (y1 # y2 # y3 # y4 # sep # rest) =
     (if is_digit y1 \<and> is_digit y2 \<and> is_digit y3 \<and> is_digit y4 \<and> sep = CHR ''-''
      then
        (case dropWhile (\<lambda>c. c \<noteq> CHR ''-'') rest of
           [] \<Rightarrow> None
         | sep2 # dtok \<Rightarrow>
             (case month_token (takeWhile (\<lambda>c. c \<noteq> CHR ''-'') rest) of
                None \<Rightarrow> None
              | Some m \<Rightarrow>
                  (case day_token dtok of
                     None \<Rightarrow> None
                   | Some d \<Rightarrow>
                       make_date (1000 * digit_val y1 + 100 * digit_val y2
                                  + 10 * digit_val y3 + digit_val y4) m d)))
      else None)"
| "strptime_ymd s = None"

section \<open>Jobs\<close>

text \<open>
  A job is the dictionary an adapter builds.  The engine reads the fields below, always with
  \<^verbatim>\<open>job.get(field, '')\<close> (or a truth test, for which a missing and an empty value
  agree), so a missing key is the empty text.  \<open>j_relevance_score\<close> is the key that the
  ranking step adds.
\<close>

record job =
  j_title :: string
  j_company :: string
  j_description :: string
  j_url :: string
  j_source :: string
  j_job_type :: string
  j_experience_level :: string
  j_posted_date :: string
  j_relevance_score :: "int option"

text \<open>\<^verbatim>\<open>JobSearchEngine._create_job_hash\<close>; \<open>job_hash_string\<close> is its \<^verbatim>\<open>hash_string\<close>.\<close>

definition job_hash_string :: "job \<Rightarrow> string" where
  "job_hash_string j =
     (let title = py_strip (py_lower (j_title j));
          company = py_strip (py_lower (j_company j));
          title = strip_punctuation title;
          title = collapse_whitespace title
      in title @ ''_'' @ company)"

definition create_job_hash :: "job \<Rightarrow> string" where
  "create_job_hash j = md5_hexdigest (job_hash_string j)"

text \<open>\<^verbatim>\<open>JobSearchEngine._is_valid_job\<close>\<close>

definition is_valid_job :: "job \<Rightarrow> bool" where
  "is_valid_job j = list_all (\<lambda>field. field j \<noteq> [] \<and> py_strip (field j) \<noteq> []) [j_title, j_company, j_url]"

definition ai_ml_keywords :: "string list" where
  "ai_ml_keywords =
     [''ai'', ''ml'', ''machine learning'', ''artificial intelligence'',
      ''deep learning'', ''neural network'', ''nlp'', ''computer vision'',
      ''data science'', ''tensorflow'', ''pytorch'']"

text \<open>
  The recency part of the score.  \<open>today\<close> is the ordinal of the date of
  \<^verbatim>\<open>datetime.now()\<close>: the parsed date is a midnight, so
  \<^verbatim>\<open>(datetime.now() - job_date).days\<close> is the difference of the two ordinals.  Every
  exception of the block is swallowed by its bare \<^verbatim>\<open>except\<close>.
\<close>

definition recency_bonus :: "int \<Rightarrow> string \<Rightarrow> int" where
  "recency_bonus today posted =
     (if posted \<noteq> [] then
        (case strptime_ymd posted of
           None \<Rightarrow> 0
         | Some job_date \<Rightarrow>
             (let days_old = today - job_date
              in if days_old \<le> 7 then 8 else if days_old \<le> 30 then 4 else 0))
      else 0)"

text \<open>\<^verbatim>\<open>JobSearchEngine._calculate_relevance\<close>; the clock it reads is the argument \<open>today\<close>.\<close>

definition calculate_relevance :: "int \<Rightarrow> job \<Rightarrow> string \<Rightarrow> int" where
  "calculate_relevance today j job_role =
     (let score = 0;
          title = py_lower (j_title j);
          description = py_lower (j_description j);
          job_role_lower = py_lower job_role;
          score = (if py_in job_role_lower title then score + 20 else score);
          keywords = py_split job_role_lower;
          score = fold (\<lambda>keyword score.
                          (let score = (if py_in keyword title then score + 8 else score)
                           in if py_in keyword description then score + 3 else score))
                       keywords score;
          score = fold (\<lambda>keyword score.
                          (let score = (if py_in keyword title then score + 10 else score)
                           in if py_in keyword description then score + 5 else score))
                       ai_ml_keywords score;
          source = py_lower (j_source j);
          score = (if py_in ''linkedin'' source then score + 8
                   else if py_in ''naukri'' source then score + 6
                   else if py_in ''indeed'' source then score + 4
                   else score);
          exp_level = py_lower (j_experience_level j);
          score = (if list_ex (\<lambda>word. py_in word exp_level) [''entry'', ''fresher'', ''0-1'', ''graduate'']
                   then score + 10 else score);
          job_type = py_lower (j_job_type j);
          score = (if job_type = ''full-time'' then score + 5
                   else if job_type = ''internship'' then score + 3
                   else score)
      in score + recency_bonus today (j_posted_date j))"

text \<open>
  \<^verbatim>\<open>JobSearchEngine._remove_duplicates_and_rank\<close>.  \<open>dedup_jobs\<close> is its loop: \<open>seen\<close> is
  \<^verbatim>\<open>seen_jobs\<close>, the result is \<^verbatim>\<open>unique_jobs\<close>.
\<close>

fun dedup_jobs :: "int \<Rightarrow> string \<Rightarrow> string set \<Rightarrow> job list \<Rightarrow> job list" where
  "dedup_jobs today job_role seen [] = []"
| "dedup_jobs today job_role seen (j # jobs) =
     (let job_hash = create_job_hash j
      in if job_hash \<notin> seen \<and> is_valid_job j
         then j\<lparr>j_relevance_score := Some (calculate_relevance today j job_role)\<rparr>
              # dedup_jobs today job_role (insert job_hash seen) jobs
         else dedup_jobs today job_role seen jobs)"

text \<open>\<^verbatim>\<open>x.get('relevance_score', 0)\<close>\<close>

definition job_score :: "job \<Rightarrow> int" where
  "job_score j = (case j_relevance_score j of None \<Rightarrow> 0 | Some s \<Rightarrow> s)"

definition remove_duplicates_and_rank :: "int \<Rightarrow> job list \<Rightarrow> string \<Rightarrow> job list" where
  "remove_duplicates_and_rank today jobs job_role =
     (let unique_jobs = dedup_jobs today job_role {} jobs;
          unique_jobs = py_sort_desc job_score unique_jobs
      in take 50 unique_jobs)"

section \<open>Interview questions\<close>

text \<open>
  A question is the dictionary built by the extraction helpers of
  \<^verbatim>\<open>InterviewQuestionAPI\<close>; \<open>q_year\<close> is \<^verbatim>\<open>None\<close> or a year, \<open>q_relevance_score\<close> is
  the key added by the relevance filter.
\<close>

record question =
  q_question :: string
  q_domain :: string
  q_company :: string
  q_difficulty :: string
  q_question_type :: string
  q_credibility_score :: int
  q_year :: "int option"
  q_solution :: string
  q_relevance_score :: "int option"

text \<open>The key computed inside the loop of \<^verbatim>\<open>_remove_duplicate_questions\<close>.\<close>

definition question_normalized :: "question \<Rightarrow> string" where
  "question_normalized q =
     (let question_text = py_strip (py_lower (q_question q));
          normalized = strip_punctuation question_text;
          normalized = collapse_whitespace normalized
      in normalized)"

definition question_hash :: "question \<Rightarrow> string" where
  "question_hash q = md5_hexdigest (question_normalized q)"

text \<open>\<^verbatim>\<open>InterviewQuestionAPI._remove_duplicate_questions\<close>: \<open>seen\<close> is \<^verbatim>\<open>seen_hashes\<close>.\<close>

fun dedup_questions :: "string set \<Rightarrow> question list \<Rightarrow> question list" where
  "dedup_questions seen [] = []"
| "dedup_questions seen (q # questions) =
     (let h = question_hash q
      in if h \<notin> seen then q # dedup_questions (insert h seen) questions
         else dedup_questions seen questions)"

definition remove_duplicate_questions :: "question list \<Rightarrow> question list" where
  "remove_duplicate_questions questions =
     (if questions = [] then [] else dedup_questions {} questions)"

text \<open>
  \<^verbatim>\<open>InterviewQuestionAPI._calculate_relevance_score\<close>; \<open>company\<close> is \<open>None\<close> for Python's
  \<^verbatim>\<open>None\<close>, and an empty text counts as false like it.
\<close>

definition calculate_relevance_score :: "question \<Rightarrow> string \<Rightarrow> string option \<Rightarrow> int" where
  "calculate_relevance_score q domain company =
     (let score = 0;
          question_text = py_lower (q_question q);
          question_domain = py_lower (q_domain q);
          question_company = py_lower (q_company q);
          score = (if py_in (py_lower domain) question_text \<or> py_in (py_lower domain) question_domain
                   then score + 5 else score);
          score = (case company of
                     None \<Rightarrow> score
                   | Some c \<Rightarrow> if c \<noteq> [] \<and> py_in (py_lower c) question_company
                              then score + 8 else score);
          score = score + q_credibility_score q;
          score = (case q_year q of
                     None \<Rightarrow> score
                   | Some year \<Rightarrow> if year \<noteq> 0 \<and> year \<ge> 2023 then score + 3
                                 else if year \<noteq> 0 \<and> year \<ge> 2020 then score + 1
                                 else score);
          score = (if q_question_type q \<in> {''Coding'', ''System Design''} then score + 2 else score);
          score = (if q_difficulty q = ''Medium'' then score + 2
                   else if q_difficulty q = ''Hard'' then score + 1
                   else score)
      in score)"

text \<open>\<^verbatim>\<open>x['relevance_score']\<close>, which the filter has set on every question it sorts.\<close>

definition question_score :: "question \<Rightarrow> int" where
  "question_score q = (case q_relevance_score q of None \<Rightarrow> 0 | Some s \<Rightarrow> s)"

text \<open>\<^verbatim>\<open>InterviewQuestionAPI._filter_relevant_questions\<close>; \<open>score_questions\<close> is its loop.\<close>

fun score_questions :: "string \<Rightarrow> string option \<Rightarrow> question list \<Rightarrow> question list" where
  "score_questions domain company [] = []"
| "score_questions domain company (q # questions) =
     (let score = calculate_relevance_score q domain company
      in if score > 3
         then q\<lparr>q_relevance_score := Some score\<rparr> # score_questions domain company questions
         else score_questions domain company questions)"

definition filter_relevant_questions ::
  "question list \<Rightarrow> string \<Rightarrow> string option \<Rightarrow> question list" where
  "filter_relevant_questions questions domain company =
     (if questions = [] then []
      else py_sort_desc question_score (score_questions domain company questions))"

text \<open>
  \<^verbatim>\<open>InterviewQuestionAPI._enhance_questions_with_detailed_solutions\<close>.  The text of a
  solution comes from the language-model call or, when that raises, from the fallback;
  \<open>solve\<close> stands for whichever text the question receives.  Every question of every
  batch is appended once, in order.
\<close>

definition enhance_questions :: "(question \<Rightarrow> string) \<Rightarrow> question list \<Rightarrow> question list" where
  "enhance_questions solve questions =
     (if questions = [] then [] else map (\<lambda>q. q\<lparr>q_solution := solve q\<rparr>) questions)"

text \<open>
  What the network gives to one search query of
  \<^verbatim>\<open>InterviewQuestionAPI.search_interview_questions\<close>: the request raises, or it returns
  a dictionary with or without \<^verbatim>\<open>organic_results\<close>.  For every organic result the two
  extraction helpers (which catch their own exceptions) give two lists of questions.
\<close>

datatype query_outcome =
    QueryRaises
  | QueryReturns "(question list \<times> question list) list option"

text \<open>The loop over \<^verbatim>\<open>results['organic_results']\<close>.\<close>

fun gather_results ::
  "int \<Rightarrow> (question list \<times> question list) list \<Rightarrow> question list \<Rightarrow> question list" where
  "gather_results question_count [] all_questions = all_questions"
| "gather_results question_count ((questions, page_questions) # results) all_questions =
     (if int (length all_questions) \<ge> question_count then all_questions
      else
        (let all_questions =
               all_questions @ py_slice_to (question_count - int (length all_questions)) questions;
             all_questions =
               all_questions @ py_slice_to (question_count - int (length all_questions)) page_questions
         in gather_results question_count results all_questions))"

text \<open>The loop over \<^verbatim>\<open>search_queries[:5]\<close>.\<close>

fun gather_queries :: "int \<Rightarrow> query_outcome list \<Rightarrow> question list \<Rightarrow> question list" where
  "gather_queries question_count [] all_questions = all_questions"
| "gather_queries question_count (outcome # queries) all_questions =
     (if int (length all_questions) \<ge> question_count then all_questions
      else
        (case outcome of
           QueryRaises \<Rightarrow> gather_queries question_count queries all_questions
         | QueryReturns None \<Rightarrow> gather_queries question_count queries all_questions
         | QueryReturns (Some organic_results) \<Rightarrow>
             gather_queries question_count queries
               (gather_results question_count organic_results all_questions)))"

text \<open>
  \<^verbatim>\<open>InterviewQuestionAPI.search_interview_questions\<close>.  \<open>search_queries\<close> holds the
  outcome of each generated query, or is \<open>None\<close> when the body raises and the method
  returns the empty list from its handler.
\<close>

definition api_search_interview_questions ::
  "(question \<Rightarrow> string) \<Rightarrow> query_outcome list option \<Rightarrow> string \<Rightarrow> string option \<Rightarrow> string \<Rightarrow> int
     \<Rightarrow> question list" where
  "api_search_interview_questions solve search_queries domain company difficulty question_count =
     (case search_queries of
        None \<Rightarrow> []
      | Some queries \<Rightarrow>
          (let all_questions = gather_queries question_count (take 5 queries) [];
               unique_questions = remove_duplicate_questions all_questions;
               relevant_questions = filter_relevant_questions unique_questions domain company;
               relevant_questions = py_slice_to question_count relevant_questions
           in enhance_questions solve relevant_questions))"

text \<open>
  \<^verbatim>\<open>JobSearchEngine.search_interview_questions\<close>: the emitted result.  The call to the
  API passes \<open>domain\<close>, \<open>company\<close> and \<open>difficulty\<close> only, so the API runs with its default
  \<^verbatim>\<open>question_count=10\<close>.
\<close>

record interview_results =
  ir_domain :: string
  ir_company :: "string option"
  ir_difficulty :: string
  ir_questions :: "question list"
  ir_total_questions :: nat

definition engine_search_interview_questions ::
  "(question \<Rightarrow> string) \<Rightarrow> query_outcome list option \<Rightarrow> string \<Rightarrow> string option \<Rightarrow> string \<Rightarrow> int
     \<Rightarrow> interview_results" where
  "engine_search_interview_questions solve search_queries domain company difficulty question_count =
     (let questions = api_search_interview_questions solve search_queries domain company difficulty 10;
          questions = py_slice_to question_count questions
      in \<lparr>ir_domain = domain, ir_company = company, ir_difficulty = difficulty,
          ir_questions = questions, ir_total_questions = length questions\<rparr>)"

section \<open>The job search session\<close>

text \<open>
  What \<^verbatim>\<open>api_instance.search_jobs\<close> does for one adapter: it raises, or it returns its
  jobs.  \<^verbatim>\<open>JobSearchEngine._safe_search\<close> turns the first into the empty list.
\<close>

datatype adapter_outcome = AdapterRaises | AdapterReturns "job list"

fun safe_search :: "adapter_outcome \<Rightarrow> job list" where
  "safe_search (AdapterReturns jobs) = jobs"
| "safe_search AdapterRaises = []"

text \<open>
  One call of an adapter: how many seconds it runs and how it ends.  Every call ends; an
  adapter that never returned would keep the session waiting for ever.
\<close>

record adapter_run =
  run_seconds :: nat
  run_outcome :: adapter_outcome

text \<open>The five adapters of the engine, named as its attributes are.\<close>

record adapters =
  linkedin_api :: adapter_run
  naukri_api :: adapter_run
  indeed_api :: adapter_run
  freshers_api :: adapter_run
  monster_api :: adapter_run

text \<open>
  A finished future: the moment it finished and what it holds, an exception or the value
  of the task.  A task runs \<^verbatim>\<open>_safe_search\<close>, so the future made by \<open>submit\<close> always
  holds a value.
\<close>

datatype task_result = TaskRaises | TaskValue "job list"

record future =
  done_after :: nat
  done_with :: task_result

definition submit :: "adapter_run \<Rightarrow> future" where
  "submit a = \<lparr>done_after = run_seconds a, done_with = TaskValue (safe_search (run_outcome a))\<rparr>"

text \<open>\<^verbatim>\<open>search_tasks\<close>, in the order of the five \<^verbatim>\<open>executor.submit\<close> calls.\<close>

definition search_tasks :: "adapters \<Rightarrow> future list" where
  "search_tasks a =
     [submit (linkedin_api a), submit (naukri_api a), submit (indeed_api a),
      submit (freshers_api a), submit (monster_api a)]"

text \<open>
  \<^verbatim>\<open>as_completed(search_tasks)\<close> is called without a timeout and hands out each future
  once it has finished; \<open>order\<close> lists the submission indices of the tasks in the order of
  their completion.
\<close>

definition as_completed :: "nat list \<Rightarrow> future list \<Rightarrow> future list" where
  "as_completed order tasks = map (\<lambda>k. tasks ! k) order"

text \<open>
  \<^verbatim>\<open>future.result(timeout=30)\<close> on a future that has finished: it returns the value or
  raises the exception at once.  The timeout bounds the wait for an unfinished future
  only, so neither it nor the time that the task took has any effect here.
\<close>

definition future_result :: "nat \<Rightarrow> future \<Rightarrow> task_result" where
  "future_result timeout f = done_with f"

definition source_names :: "string list" where
  "source_names = [''linkedin'', ''naukri'', ''indeed'', ''freshersworld'', ''monster'']"

text \<open>\<^verbatim>\<open>str(i)\<close> for a natural number.\<close>

fun py_str_nat :: "nat \<Rightarrow> string" where
  "py_str_nat n =
     (if n < 10 then [char_of (48 + n)]
      else py_str_nat (n div 10) @ [char_of (48 + n mod 10)])"

definition source_name_at :: "nat \<Rightarrow> string" where
  "source_name_at i =
     (if i < length source_names then source_names ! i else ''source_'' @ py_str_nat i)"

text \<open>
  The collection loop \<^verbatim>\<open>for i, future in enumerate(as_completed(search_tasks))\<close>.  Its
  second argument lists what \<^verbatim>\<open>future.result(timeout=30)\<close> gives for the futures in the
  order in which the tasks complete; the state is
  \<^verbatim>\<open>(results['sources'], results['all_jobs'])\<close>, the dictionary as the list of its items.
  The push of \<^verbatim>\<open>source_completed\<close> comes after both assignments and inside the inner
  \<^verbatim>\<open>try\<close>, whose handler only continues: a sink that raises there changes nothing.
\<close>

fun collect ::
  "nat \<Rightarrow> task_result list \<Rightarrow> (string \<times> job list) list \<times> job list
     \<Rightarrow> (string \<times> job list) list \<times> job list" where
  "collect i [] st = st"
| "collect i (TaskRaises # futures) st = collect (Suc i) futures st"
| "collect i (TaskValue source_jobs # futures) (sources, all_jobs) =
     (let source_name = source_name_at i
      in collect (Suc i) futures
           (AList.update source_name source_jobs sources, all_jobs @ source_jobs))"

text \<open>
  The lists under \<^verbatim>\<open>results['sources']\<close> hold the very dictionaries of
  \<^verbatim>\<open>results['all_jobs']\<close>, in the order of collection, and the loop of
  \<^verbatim>\<open>_remove_duplicates_and_rank\<close> writes the score into each dictionary that it keeps.
  \<open>mark_jobs\<close> is that loop seen from the dictionaries: for each of them, in order,
  whether it is appended to \<^verbatim>\<open>unique_jobs\<close> and what it holds afterwards.  \<open>write_back\<close>
  reads the dictionaries of each source after the loop.
\<close>

fun mark_jobs :: "int \<Rightarrow> string \<Rightarrow> string set \<Rightarrow> job list \<Rightarrow> (bool \<times> job) list" where
  "mark_jobs today job_role seen [] = []"
| "mark_jobs today job_role seen (j # jobs) =
     (let job_hash = create_job_hash j
      in if job_hash \<notin> seen \<and> is_valid_job j
         then (True, j\<lparr>j_relevance_score := Some (calculate_relevance today j job_role)\<rparr>)
              # mark_jobs today job_role (insert job_hash seen) jobs
         else (False, j) # mark_jobs today job_role seen jobs)"

fun write_back :: "(string \<times> job list) list \<Rightarrow> job list \<Rightarrow> (string \<times> job list) list" where
  "write_back [] objects = []"
| "write_back ((source, jobs) # sources) objects =
     (source, take (length jobs) objects) # write_back sources (drop (length jobs) objects)"

text \<open>
  The events that \<^verbatim>\<open>comprehensive_job_search\<close> pushes with \<^verbatim>\<open>socketio.emit\<close> directly
  inside its outer \<^verbatim>\<open>try\<close>, and the sink that receives them: for each event the sink
  returns (\<open>None\<close>) or raises an exception with the given text.
\<close>

datatype event = SearchStarted | Thought | SearchCompleted

type_synonym event_sink = "event \<Rightarrow> string option"

record search_summary =
  total_jobs_found :: nat
  sources_searched :: nat
  source_breakdown :: "(string \<times> nat) list"

record search_results =
  sr_job_role :: string
  sr_location :: string
  sr_total_jobs :: nat
  sr_sources :: "(string \<times> job list) list"
  sr_all_jobs :: "job list"
  sr_search_status :: string
  sr_summary :: "search_summary option"
  sr_error :: "string option"

text \<open>
  \<^verbatim>\<open>JobSearchEngine._generate_search_summary\<close>, without the three tables computed from
  \<^verbatim>\<open>all_jobs\<close> by other helpers.
\<close>

definition generate_search_summary :: "search_results \<Rightarrow> search_summary" where
  "generate_search_summary results =
     (let total_jobs = sr_total_jobs results;
          sources = sr_sources results
      in \<lparr>total_jobs_found = total_jobs,
          sources_searched = length sources,
          source_breakdown = map (\<lambda>(source, jobs). (source, length jobs)) sources\<rparr>)"

text \<open>The handler \<^verbatim>\<open>except Exception as e\<close> of \<^verbatim>\<open>comprehensive_job_search\<close>.\<close>

definition search_failed :: "string \<Rightarrow> search_results \<Rightarrow> search_results" where
  "search_failed e results = results\<lparr>sr_search_status := ''failed'', sr_error := Some e\<rparr>"

text \<open>
  \<^verbatim>\<open>JobSearchEngine.comprehensive_job_search\<close>: the \<^verbatim>\<open>results\<close> dictionary when the
  method ends.  For jobs of this shape the statements of the outer \<^verbatim>\<open>try\<close> that can
  raise are the three pushes to the event sink; when one raises, the handler marks the
  results, as they are at that moment, as failed.
\<close>

definition comprehensive_job_search ::
  "event_sink \<Rightarrow> int \<Rightarrow> nat list \<Rightarrow> adapters \<Rightarrow> string \<Rightarrow> string \<Rightarrow> search_results" where
  "comprehensive_job_search sink today order apis job_role location =
     (let results = \<lparr>sr_job_role = job_role, sr_location = location, sr_total_jobs = 0,
                     sr_sources = [], sr_all_jobs = [], sr_search_status = ''in_progress'',
                     sr_summary = None, sr_error = None\<rparr>
      in case sink SearchStarted of
           Some e \<Rightarrow> search_failed e results
         | None \<Rightarrow>
             (let (sources, all_jobs) =
                    collect 0 (map (future_result 30) (as_completed order (search_tasks apis)))
                      ([], []);
                  results = results\<lparr>sr_sources := sources, sr_all_jobs := all_jobs\<rparr>
              in case sink Thought of
                   Some e \<Rightarrow> search_failed e results
                 | None \<Rightarrow>
                     (let ranked = remove_duplicates_and_rank today all_jobs job_role;
                          sources = write_back sources (map snd (mark_jobs today job_role {} all_jobs));
                          results = results\<lparr>sr_sources := sources, sr_all_jobs := ranked\<rparr>;
                          results = results\<lparr>sr_total_jobs := length ranked\<rparr>;
                          results = results\<lparr>sr_search_status := ''completed''\<rparr>;
                          results = results\<lparr>sr_summary := Some (generate_search_summary results)\<rparr>
                      in case sink SearchCompleted of
                           Some e \<Rightarrow> search_failed e results
                         | None \<Rightarrow> results)))"

section \<open>The two endpoints\<close>

text \<open>
  The JSON body of a request: \<open>None\<close> in a field is a missing key.  A reply is the status
  code with its message; beside it stands the background thread that the endpoint
  started, if it started one.  Adapters are called by that thread only.
\<close>

record job_search_body =
  b_job_role :: "string option"
  b_location :: "string option"
  b_filters :: "(string \<times> string) list option"

record interview_body =
  b_domain :: "string option"
  b_company :: "string option"
  b_difficulty :: "string option"
  b_question_count :: "int option"

datatype background_thread =
    JobSearchThread string string "(string \<times> string) list"
  | InterviewSearchThread string "string option" string int

type_synonym reply = "(nat \<times> string) \<times> background_thread option"

text \<open>\<^verbatim>\<open>data.get(key, default)\<close>\<close>

definition get_default :: "'a option \<Rightarrow> 'a \<Rightarrow> 'a" where
  "get_default v d = (case v of None \<Rightarrow> d | Some x \<Rightarrow> x)"

text \<open>\<^verbatim>\<open>search_jobs\<close>, the handler of \<^verbatim>\<open>/search-jobs\<close>; \<open>None\<close> is a missing or empty body.\<close>

definition search_jobs :: "job_search_body option \<Rightarrow> reply" where
  "search_jobs data =
     (case data of
        None \<Rightarrow> ((400, ''No JSON data provided''), None)
      | Some d \<Rightarrow>
          (let job_role = py_strip (get_default (b_job_role d) []);
               location = py_strip (get_default (b_location d) ''Pune'');
               filters = get_default (b_filters d) []
           in if job_role = [] then ((400, ''Job role is required''), None)
              else if length job_role < 2
                then ((400, ''Job role must be at least 2 characters''), None)
              else ((200, ''Job search initiated successfully''),
                    Some (JobSearchThread job_role location filters))))"

definition valid_domains :: "string list" where
  "valid_domains =
     [''DSA'', ''SQL'', ''OS'', ''CN'', ''DBMS'', ''Machine Learning'', ''Deep Learning'',
      ''Python'', ''Java'', ''System Design'', ''JavaScript'', ''React'', ''Node.js'',
      ''Cloud Computing'', ''DevOps'', ''Cybersecurity'', ''Blockchain'']"

text \<open>\<^verbatim>\<open>sep.join(xs)\<close>\<close>

fun py_join :: "string \<Rightarrow> string list \<Rightarrow> string" where
  "py_join sep [] = []"
| "py_join sep [x] = x"
| "py_join sep (x # y # ys) = x @ sep @ py_join sep (y # ys)"

text \<open>\<^verbatim>\<open>min(data.get('question_count',10), 20)\<close>\<close>

definition effective_question_count :: "int option \<Rightarrow> int" where
  "effective_question_count requested = min (get_default requested 10) 20"

text \<open>\<^verbatim>\<open>search_interview_questions\<close>, the handler of \<^verbatim>\<open>/interview-questions\<close>.\<close>

definition interview_questions :: "interview_body option \<Rightarrow> reply" where
  "interview_questions data =
     (case data of
        None \<Rightarrow> ((400, ''No JSON data provided''), None)
      | Some d \<Rightarrow>
          (let domain = py_strip (get_default (b_domain d) []);
               company = (let c = py_strip (get_default (b_company d) [])
                          in if c = [] then None else Some c);
               difficulty = py_lower (get_default (b_difficulty d) ''all'');
               question_count = effective_question_count (b_question_count d)
           in if domain = [] then ((400, ''Domain is required''), None)
              else if length domain < 2
                then ((400, ''Domain must be at least 2 characters''), None)
              else if domain \<notin> set valid_domains
                then ((400, ''Invalid domain. Supported domains: '' @ py_join '', '' valid_domains),
                      None)
              else ((200, ''Enhanced interview question search initiated successfully''),
                    Some (InterviewSearchThread domain company difficulty question_count))))"

section \<open>The specification's deduplicator\<close>

text \<open>
  The rule of the specification, in its own words: of the items that share a key the
  first to arrive is kept, every later one is discarded, and the kept items stay in their
  order of arrival.  Item \<open>i\<close> is kept when no item before it has its key.
\<close>

definition first_of_each_key :: "('a \<Rightarrow> 'k) \<Rightarrow> 'a list \<Rightarrow> 'a list" where
  "first_of_each_key key xs =
     map (\<lambda>i. xs ! i)
       (filter (\<lambda>i. list_all (\<lambda>j. key (xs ! j) \<noteq> key (xs ! i)) [0..<i]) [0..<length xs])"

section \<open>Example data\<close>

text \<open>Jobs and questions of the shape the adapters produce, used to run the model.\<close>

definition job_acme_dash :: job where
  "job_acme_dash =
     \<lparr>j_title = ''ML Engineer - Acme'', j_company = ''Acme'', j_description = ''Build models'',
      j_url = ''https://example.com/1'', j_source = ''LinkedIn'', j_job_type = ''Full-time'',
      j_experience_level = ''entry'', j_posted_date = ''2024-01-10'', j_relevance_score = None\<rparr>"

definition job_acme_at :: job where
  "job_acme_at =
     \<lparr>j_title = ''ml engineer @ acme'', j_company = ''Acme'', j_description = ''Build models'',
      j_url = ''https://example.com/2'', j_source = ''Naukri'', j_job_type = ''Full-time'',
      j_experience_level = ''entry'', j_posted_date = ''2024-01-10'', j_relevance_score = None\<rparr>"

definition job_no_url :: job where
  "job_no_url = job_acme_dash\<lparr>j_url := []\<rparr>"

definition job_undated :: job where
  "job_undated = job_acme_dash\<lparr>j_posted_date := []\<rparr>"

definition example_question :: "string \<Rightarrow> int \<Rightarrow> question" where
  "example_question text credibility =
     \<lparr>q_question = text, q_domain = ''SQL'', q_company = ''Various Companies'',
      q_difficulty = ''Easy'', q_question_type = ''General'', q_credibility_score = credibility,
      q_year = None, q_solution = [], q_relevance_score = None\<rparr>"

definition example_apis :: adapters where
  "example_apis =
     \<lparr>linkedin_api = \<lparr>run_seconds = 9, run_outcome = AdapterReturns [job_acme_dash]\<rparr>,
      naukri_api = \<lparr>run_seconds = 4, run_outcome = AdapterReturns [job_acme_at, job_no_url]\<rparr>,
      indeed_api = \<lparr>run_seconds = 12, run_outcome = AdapterReturns []\<rparr>,
      freshers_api = \<lparr>run_seconds = 13, run_outcome = AdapterRaises\<rparr>,
      monster_api = \<lparr>run_seconds = 14, run_outcome = AdapterReturns []\<rparr>\<rparr>"

definition example_apis_partial :: adapters where
  "example_apis_partial =
     \<lparr>linkedin_api = \<lparr>run_seconds = 6, run_outcome = AdapterReturns [job_acme_dash]\<rparr>,
      naukri_api = \<lparr>run_seconds = 8, run_outcome = AdapterRaises\<rparr>,
      indeed_api = \<lparr>run_seconds = 2, run_outcome = AdapterReturns []\<rparr>,
      freshers_api = \<lparr>run_seconds = 9, run_outcome = AdapterRaises\<rparr>,
      monster_api = \<lparr>run_seconds = 7, run_outcome = AdapterReturns []\<rparr>\<rparr>"


definition accepting_sink :: event_sink where
  "accepting_sink e = None"

definition sink_closed_at_completion :: event_sink where
  "sink_closed_at_completion e = (if e = SearchCompleted then Some ''emit failed'' else None)"

section \<open>Auxiliary facts\<close>

lemma py_slice_to_length_le: "length (py_slice_to n xs) \<le> length xs"
  by (simp add: py_slice_to_def)

lemma py_slice_to_nonneg: "0 \<le> n \<Longrightarrow> int (length (py_slice_to n xs)) \<le> n"
  by (simp add: py_slice_to_def)

lemma length_enhance_questions: "length (enhance_questions solve qs) = length qs"
  by (simp add: enhance_questions_def)

lemma length_py_strip_le: "length (py_strip s) \<le> length s"
proof -
  have "length (py_strip s) = length (dropWhile py_isspace (rev (dropWhile py_isspace s)))"
    by (simp add: py_strip_def)
  also have "\<dots> \<le> length (rev (dropWhile py_isspace s))"
    by (rule length_dropWhile_le)
  also have "\<dots> = length (dropWhile py_isspace s)"
    by simp
  also have "\<dots> \<le> length s"
    by (rule length_dropWhile_le)
  finally show ?thesis .
qed

lemma api_at_most_count:
  "0 \<le> n \<Longrightarrow> int (length (api_search_interview_questions solve sq domain company difficulty n)) \<le> n"
  by (cases sq) (simp_all add: api_search_interview_questions_def Let_def length_enhance_questions py_slice_to_nonneg)

lemma engine_questions_eq:
  "ir_questions (engine_search_interview_questions solve sq domain company difficulty qc) =
   py_slice_to qc (api_search_interview_questions solve sq domain company difficulty 10)"
  by (simp add: engine_search_interview_questions_def Let_def)

lemma engine_at_most_ten:
  "length (ir_questions (engine_search_interview_questions solve sq domain company difficulty qc)) \<le> 10"
proof -
  have "int (length (api_search_interview_questions solve sq domain company difficulty 10)) \<le> 10"
    by (rule api_at_most_count) simp
  moreover have "length (py_slice_to qc (api_search_interview_questions solve sq domain company difficulty 10))
      \<le> length (api_search_interview_questions solve sq domain company difficulty 10)"
    by (rule py_slice_to_length_le)
  ultimately show ?thesis by (simp add: engine_questions_eq)
qed

lemma key_mem_nth: "(key x \<in> key ` set xs) = (\<exists>j<length xs. key (xs ! j) = key x)"
proof
  assume "key x \<in> key ` set xs"
  then obtain y where y: "y \<in> set xs" "key x = key y" by blast
  then obtain j where "j < length xs" "xs ! j = y" by (auto simp: in_set_conv_nth)
  with y show "\<exists>j<length xs. key (xs ! j) = key x" by auto
next
  assume "\<exists>j<length xs. key (xs ! j) = key x"
  then obtain j where j: "j < length xs" "key (xs ! j) = key x" by blast
  then have "xs ! j \<in> set xs" by simp
  with j show "key x \<in> key ` set xs" by (metis image_eqI)
qed

lemma last_kept:
  "list_all (\<lambda>j. key ((xs @ [x]) ! j) \<noteq> key ((xs @ [x]) ! length xs)) [0..<length xs]
   \<longleftrightarrow> key x \<notin> key ` set xs"
proof -
  have "list_all (\<lambda>j. key ((xs @ [x]) ! j) \<noteq> key ((xs @ [x]) ! length xs)) [0..<length xs]
        \<longleftrightarrow> (\<forall>j<length xs. key (xs ! j) \<noteq> key x)"
    by (auto simp: list_all_iff nth_append)
  then show ?thesis by (simp add: key_mem_nth)
qed


lemma first_of_each_key_snoc:
  "first_of_each_key key (xs @ [x]) =
   first_of_each_key key xs @ (if key x \<in> key ` set xs then [] else [x])"
proof -
  let ?n = "length xs"
  have old: "filter (\<lambda>i. list_all (\<lambda>j. key ((xs @ [x]) ! j) \<noteq> key ((xs @ [x]) ! i)) [0..<i]) [0..<?n]
           = filter (\<lambda>i. list_all (\<lambda>j. key (xs ! j) \<noteq> key (xs ! i)) [0..<i]) [0..<?n]"
    by (rule filter_cong) (auto simp: list_all_iff nth_append)
  have map_old: "map (\<lambda>i. (xs @ [x]) ! i) (filter P [0..<?n]) = map (\<lambda>i. xs ! i) (filter P [0..<?n])" for P
    by (rule map_cong) (auto simp: nth_append)
  have last: "list_all (\<lambda>j. key ((xs @ [x]) ! j) \<noteq> key ((xs @ [x]) ! ?n)) [0..<?n]
              \<longleftrightarrow> key x \<notin> key ` set xs"
    by (rule last_kept)
  then have last': "list_all (\<lambda>j. key ((xs @ [x]) ! j) \<noteq> key x) [0..<?n] \<longleftrightarrow> key x \<notin> key ` set xs"
    by simp
  show ?thesis
    unfolding first_of_each_key_def
    by (simp add: old map_old last' del: upt_Suc add: upt_Suc_append)
qed

lemma dedup_questions_snoc:
  "dedup_questions seen (qs @ [q]) =
   dedup_questions seen qs
   @ (if question_hash q \<in> seen \<union> question_hash ` set qs then [] else [q])"
  by (induction qs arbitrary: seen) (auto simp: Let_def)

lemma dedup_questions_first_of_each_key:
  "dedup_questions {} qs = first_of_each_key question_hash qs"
proof (induction qs rule: rev_induct)
  case Nil
  show ?case by (simp add: first_of_each_key_def)
next
  case (snoc q qs)
  then show ?case by (simp add: dedup_questions_snoc first_of_each_key_snoc)
qed

lemma remove_duplicate_questions_spec:
  "remove_duplicate_questions qs = first_of_each_key question_hash qs"
  by (simp add: remove_duplicate_questions_def dedup_questions_first_of_each_key first_of_each_key_def)

lemma create_job_hash_scored [simp]:
  "create_job_hash (j\<lparr>j_relevance_score := s\<rparr>) = create_job_hash j"
  by (simp add: create_job_hash_def job_hash_string_def)

lemma is_valid_job_scored [simp]:
  "is_valid_job (j\<lparr>j_relevance_score := s\<rparr>) = is_valid_job j"
  by (simp add: is_valid_job_def)

lemma calculate_relevance_scored [simp]:
  "calculate_relevance today (j\<lparr>j_relevance_score := s\<rparr>) job_role = calculate_relevance today j job_role"
  by (simp add: calculate_relevance_def)

lemma dedup_jobs_snoc:
  "dedup_jobs today job_role seen (js @ [j]) =
   dedup_jobs today job_role seen js
   @ (if create_job_hash j \<in> seen \<union> create_job_hash ` set (filter is_valid_job js) \<or> \<not> is_valid_job j
      then [] else [j\<lparr>j_relevance_score := Some (calculate_relevance today j job_role)\<rparr>])"
  by (induction js arbitrary: seen) (auto simp: Let_def)

lemma dedup_jobs_first_of_each_key:
  "dedup_jobs today job_role {} js =
   map (\<lambda>j. j\<lparr>j_relevance_score := Some (calculate_relevance today j job_role)\<rparr>)
     (first_of_each_key create_job_hash (filter is_valid_job js))"
proof (induction js rule: rev_induct)
  case Nil
  show ?case by (simp add: first_of_each_key_def)
next
  case (snoc j js)
  then show ?case by (simp add: dedup_jobs_snoc first_of_each_key_snoc)
qed

lemma dedup_questions_keys:
  "distinct (map question_hash (dedup_questions seen qs))
   \<and> question_hash ` set (dedup_questions seen qs) \<inter> seen = {}"
proof (induction qs arbitrary: seen)
  case Nil
  show ?case by simp
next
  case (Cons q qs)
  from Cons [of seen] Cons [of "insert (question_hash q) seen"]
  show ?case by (auto simp: Let_def)
qed

lemma dedup_questions_fixed:
  "distinct (map question_hash qs) \<Longrightarrow> question_hash ` set qs \<inter> seen = {}
   \<Longrightarrow> dedup_questions seen qs = qs"
  by (induction qs arbitrary: seen) (auto simp: Let_def)

lemma dedup_questions_idem:
  "dedup_questions {} (dedup_questions {} qs) = dedup_questions {} qs"
  using dedup_questions_keys [of "{}" qs] by (intro dedup_questions_fixed) auto

lemma dedup_jobs_keys:
  "distinct (map create_job_hash (dedup_jobs today job_role seen js))
   \<and> create_job_hash ` set (dedup_jobs today job_role seen js) \<inter> seen = {}
   \<and> (\<forall>j \<in> set (dedup_jobs today job_role seen js).
         is_valid_job j \<and> j_relevance_score j = Some (calculate_relevance today j job_role))"
proof (induction js arbitrary: seen)
  case Nil
  show ?case by simp
next
  case (Cons j js)
  from Cons [of seen] Cons [of "insert (create_job_hash j) seen"]
  show ?case by (auto simp: Let_def)
qed

lemma dedup_jobs_fixed:
  "distinct (map create_job_hash js) \<Longrightarrow> create_job_hash ` set js \<inter> seen = {}
   \<Longrightarrow> \<forall>j \<in> set js. is_valid_job j \<and> j_relevance_score j = Some (calculate_relevance today j job_role)
   \<Longrightarrow> dedup_jobs today job_role seen js = js"
  by (induction js arbitrary: seen) (auto simp: Let_def)

lemma dedup_jobs_idem:
  "dedup_jobs today job_role {} (dedup_jobs today job_role {} js) = dedup_jobs today job_role {} js"
  using dedup_jobs_keys [of today job_role "{}" js] by (intro dedup_jobs_fixed) auto

lemma remove_duplicate_questions_loop:
  "remove_duplicate_questions qs = dedup_questions {} qs"
  by (simp add: remove_duplicate_questions_def)

lemma acme_hash_strings:
  "job_hash_string job_acme_dash = ''ml engineer acme_acme''"
  "job_hash_string job_acme_at = ''ml engineer acme_acme''"
  "job_hash_string job_no_url = ''ml engineer acme_acme''"
  by code_simp+

lemma acme_hashes:
  "create_job_hash job_acme_at = create_job_hash job_acme_dash"
  "create_job_hash job_no_url = create_job_hash job_acme_dash"
  by (simp_all add: create_job_hash_def acme_hash_strings)

lemma acme_valid:
  "is_valid_job job_acme_dash" "is_valid_job job_acme_at" "\<not> is_valid_job job_no_url"
  by code_simp+

lemma first_of_each_key_two:
  "first_of_each_key key [a, b] = (if key b = key a then [a] else [a, b])"
  using first_of_each_key_snoc [of key "[a]" b] first_of_each_key_snoc [of key "[]" a]
  by (simp add: first_of_each_key_def)

lemma fold_increasing:
  fixes s :: int
  assumes "\<And>x t. t \<le> f x t"
  shows "s \<le> fold f xs s"
proof (induction xs arbitrary: s)
  case Nil
  show ?case by simp
next
  case (Cons x xs)
  have "s \<le> f x s" by (rule assms)
  also have "\<dots> \<le> fold f xs (f x s)" by (rule Cons.IH)
  finally show ?case by simp
qed

lemma recency_bonus_nonneg: "0 \<le> recency_bonus today posted"
  by (simp add: recency_bonus_def Let_def split: option.splits)

lemma calculate_relevance_split:
  "\<exists>b. 0 \<le> b \<and> (\<forall>today. calculate_relevance today j job_role = b + recency_bonus today (j_posted_date j))"
proof -
  define title where "title = py_lower (j_title j)"
  define description where "description = py_lower (j_description j)"
  define s1 :: int where "s1 = (if py_in (py_lower job_role) title then 0 + 20 else 0)"
  define f1 where "f1 = (\<lambda>keyword (score::int).
      (let score = (if py_in keyword title then score + 8 else score)
       in if py_in keyword description then score + 3 else score))"
  define f2 where "f2 = (\<lambda>keyword (score::int).
      (let score = (if py_in keyword title then score + 10 else score)
       in if py_in keyword description then score + 5 else score))"
  define s2 where "s2 = fold f1 (py_split (py_lower job_role)) s1"
  define s3 where "s3 = fold f2 ai_ml_keywords s2"
  define s4 where "s4 = (if py_in ''linkedin'' (py_lower (j_source j)) then s3 + 8
                   else if py_in ''naukri'' (py_lower (j_source j)) then s3 + 6
                   else if py_in ''indeed'' (py_lower (j_source j)) then s3 + 4
                   else s3)"
  define s5 where "s5 = (if list_ex (\<lambda>word. py_in word (py_lower (j_experience_level j)))
                            [''entry'', ''fresher'', ''0-1'', ''graduate'']
                   then s4 + 10 else s4)"
  define s6 where "s6 = (if py_lower (j_job_type j) = ''full-time'' then s5 + 5
                   else if py_lower (j_job_type j) = ''internship'' then s5 + 3
                   else s5)"
  have eq: "calculate_relevance today j job_role = s6 + recency_bonus today (j_posted_date j)" for today
    unfolding calculate_relevance_def s6_def s5_def s4_def s3_def s2_def f1_def f2_def s1_def
      title_def description_def Let_def by (rule refl)
  have "0 \<le> s1" by (simp add: s1_def)
  also have "s1 \<le> s2" unfolding s2_def by (rule fold_increasing) (simp add: f1_def Let_def)
  also have "s2 \<le> s3" unfolding s3_def by (rule fold_increasing) (simp add: f2_def Let_def)
  also have "s3 \<le> s4" by (simp add: s4_def)
  also have "s4 \<le> s5" by (simp add: s5_def)
  also have "s5 \<le> s6" by (simp add: s6_def)
  finally have "0 \<le> s6" .
  with eq show ?thesis by blast
qed

lemma calculate_relevance_score_nonneg:
  "0 \<le> q_credibility_score q \<Longrightarrow> 0 \<le> calculate_relevance_score q domain company"
  by (simp add: calculate_relevance_score_def Let_def split: option.splits)

lemma undated_scores:
  "j_posted_date job_undated = []"
  "calculate_relevance 738897 job_undated ''ML Engineer'' = 69"
  "calculate_relevance 739038 job_undated ''ML Engineer'' = 69"
  by code_simp+













lemma example_hashes_differ:
  "question_hash (example_question ''What is a view?'' 9)
   \<noteq> question_hash (example_question ''What is a join?'' 9)"
  by code_simp

lemma example_scores:
  "calculate_relevance_score (example_question ''What is a join?'' 9) ''SQL'' None = 14"
  "calculate_relevance_score (example_question ''What is a view?'' 9) ''SQL'' None = 14"
  by code_simp+

lemma engine_negative_count:
  "ir_questions (engine_search_interview_questions (\<lambda>q. ''answer'')
      (Some [QueryReturns (Some [([example_question ''What is a join?'' 9,
                                   example_question ''What is a view?'' 9], [])])])
      ''SQL'' None ''all'' (- 1))
   = [(example_question ''What is a join?'' 9)\<lparr>q_solution := ''answer'', q_relevance_score := Some 14\<rparr>]"
  by (simp add: engine_search_interview_questions_def api_search_interview_questions_def
        remove_duplicate_questions_def filter_relevant_questions_def enhance_questions_def
        py_sort_desc_def py_slice_to_def question_score_def Let_def
        example_hashes_differ example_scores)

lemma dedup_jobs_mark:
  "dedup_jobs today job_role seen jobs = map snd (filter fst (mark_jobs today job_role seen jobs))"
  by (induction jobs arbitrary: seen) (simp_all add: Let_def)

lemma length_mark_jobs: "length (mark_jobs today job_role seen jobs) = length jobs"
  by (induction jobs arbitrary: seen) (simp_all add: Let_def)

lemma session_status:
  "sr_search_status (comprehensive_job_search sink today order apis job_role location)
   = (if sink SearchStarted = None \<and> sink Thought = None \<and> sink SearchCompleted = None
      then ''completed'' else ''failed'')"
  by (simp add: comprehensive_job_search_def search_failed_def split_def Let_def
           split: option.splits)

lemma session_all_jobs:
  "sink SearchStarted = None \<Longrightarrow> sink Thought = None \<Longrightarrow>
   sr_all_jobs (comprehensive_job_search sink today order apis job_role location)
   = remove_duplicates_and_rank today
       (snd (collect 0 (map (future_result 30) (as_completed order (search_tasks apis))) ([], [])))
       job_role"
  by (simp add: comprehensive_job_search_def search_failed_def split_def Let_def
           split: option.splits)

lemma session_sources:
  "sink SearchStarted = None \<Longrightarrow> sink Thought = None \<Longrightarrow>
   sr_sources (comprehensive_job_search sink today order apis job_role location)
   = write_back
       (fst (collect 0 (map (future_result 30) (as_completed order (search_tasks apis))) ([], [])))
       (map snd (mark_jobs today job_role {}
          (snd (collect 0 (map (future_result 30) (as_completed order (search_tasks apis))) ([], [])))))"
  by (simp add: comprehensive_job_search_def search_failed_def split_def Let_def
           split: option.splits)

lemma session_summary:
  "sink SearchStarted = None \<Longrightarrow> sink Thought = None \<Longrightarrow>
   map_option source_breakdown
     (sr_summary (comprehensive_job_search sink today order apis job_role location))
   = Some (map (\<lambda>(source, jobs). (source, length jobs))
        (sr_sources (comprehensive_job_search sink today order apis job_role location)))"
  by (simp add: comprehensive_job_search_def search_failed_def split_def Let_def
        generate_search_summary_def split: option.splits)








lemma sink_facts:
  "accepting_sink SearchStarted = None" "accepting_sink Thought = None"
  "accepting_sink SearchCompleted = None"
  "sink_closed_at_completion SearchStarted = None" "sink_closed_at_completion Thought = None"
  "sink_closed_at_completion SearchCompleted = Some ''emit failed''"
  by (simp_all add: accepting_sink_def sink_closed_at_completion_def)




lemma update_fresh:
  "k \<notin> fst ` set al \<Longrightarrow> AList.update k v al = al @ [(k, v)]"
  by (induction al) auto

lemma source_name_at_inj:
  assumes "i < 5" "j < 5" "source_name_at i = source_name_at j"
  shows "i = j"
proof -
  have d: "distinct source_names" by (simp add: source_names_def)
  have l: "length source_names = 5" by (simp add: source_names_def)
  from assms l have "source_names ! i = source_names ! j" by (simp add: source_name_at_def)
  with d assms(1,2) l show ?thesis by (simp add: nth_eq_iff_index_eq)
qed

lemma collect_segments:
  "i + length rs \<le> 5 \<Longrightarrow> fst ` set sources \<subseteq> source_name_at ` {0..<i}
   \<Longrightarrow> all_jobs = concat (map snd sources)
   \<Longrightarrow> snd (collect i rs (sources, all_jobs)) = concat (map snd (fst (collect i rs (sources, all_jobs))))"
proof (induction rs arbitrary: i sources all_jobs)
  case Nil
  then show ?case by simp
next
  case (Cons r rs)
  show ?case
  proof (cases r)
    case TaskRaises
    have "fst ` set sources \<subseteq> source_name_at ` {0..<Suc i}"
      using Cons.prems(2) by auto
    with Cons.prems TaskRaises show ?thesis
      by (simp add: Cons.IH)
  next
    case (TaskValue js)
    have fresh: "source_name_at i \<notin> fst ` set sources"
    proof
      assume "source_name_at i \<in> fst ` set sources"
      with Cons.prems(2) obtain j where j: "j < i" "source_name_at i = source_name_at j" by auto
      with Cons.prems(1) have "i = j" by (intro source_name_at_inj) auto
      with j(1) show False by simp
    qed
    have keys: "fst ` set (sources @ [(source_name_at i, js)]) \<subseteq> source_name_at ` {0..<Suc i}"
      using Cons.prems(2) by auto
    have cat: "all_jobs @ js = concat (map snd (sources @ [(source_name_at i, js)]))"
      using Cons.prems(3) by simp
    have "Suc i + length rs \<le> 5" using Cons.prems(1) by simp
    from Cons.IH [OF this keys cat] TaskValue show ?thesis
      by (simp add: Let_def update_fresh [OF fresh])
  qed
qed

lemma example_collect:
  "collect 0 (map (future_result 30) (as_completed [1, 0, 2, 3, 4] (search_tasks example_apis)))
     ([], [])
   = ([(''linkedin'', [job_acme_at, job_no_url]), (''naukri'', [job_acme_dash]),
       (''indeed'', []), (''freshersworld'', []), (''monster'', [])],
      [job_acme_at, job_no_url, job_acme_dash])"
  by code_simp

lemma acme_at_score: "calculate_relevance 738897 job_acme_at ''ML Engineer'' = 75"
  by code_simp

lemma example_marks:
  "map snd (mark_jobs 738897 ''ML Engineer'' {} [job_acme_at, job_no_url, job_acme_dash])
   = [job_acme_at\<lparr>j_relevance_score := Some 75\<rparr>, job_no_url, job_acme_dash]"
  by (simp add: Let_def acme_hashes acme_valid acme_at_score)

lemma session_length:
  "sr_search_status (comprehensive_job_search sink today order apis job_role location) = ''completed''
   \<Longrightarrow> length (sr_all_jobs (comprehensive_job_search sink today order apis job_role location)) \<le> 50"
proof -
  assume "sr_search_status (comprehensive_job_search sink today order apis job_role location) = ''completed''"
  then have "sink SearchStarted = None" "sink Thought = None"
    by (simp_all add: session_status split: if_splits)
  then show ?thesis
    by (simp add: session_all_jobs remove_duplicates_and_rank_def Let_def)
qed





section \<open>Claims\<close>

text \<open>
  C10.  Whatever count the caller asks for, the engine emits at most ten questions: it
  calls the question API without the count, the API truncates its relevant questions to
  its default of ten, and the engine's own slice only shortens the list.
\<close>

theorem engine_returns_at_most_ten:
  "length (ir_questions (engine_search_interview_questions solve search_queries domain company difficulty question_count)) \<le> 10
   \<and> ir_total_questions (engine_search_interview_questions solve search_queries domain company difficulty question_count) \<le> 10"
proof -
  have "ir_total_questions (engine_search_interview_questions solve search_queries domain company difficulty question_count)
        = length (ir_questions (engine_search_interview_questions solve search_queries domain company difficulty question_count))"
    by (simp add: engine_search_interview_questions_def Let_def)
  then show ?thesis using engine_at_most_ten by simp
qed

text \<open>
  C2, as amended.  The count used by the engine is the requested one (ten when absent) cut
  down to twenty: it never exceeds twenty, and it is at least one exactly when the
  request gives no count or a count of at least one.  The started thread receives that
  count.
\<close>

theorem question_count_upper_clamp:
  "effective_question_count requested \<le> 20
   \<and> (1 \<le> effective_question_count requested) = (case requested of None \<Rightarrow> True | Some n \<Rightarrow> 1 \<le> n)
   \<and> (snd (interview_questions (Some d)) = Some (InterviewSearchThread domain company difficulty question_count)
        \<longrightarrow> question_count = effective_question_count (b_question_count d))"
  by (auto simp: effective_question_count_def get_default_def interview_questions_def Let_def
           split: option.splits if_splits)

theorem question_count_upper_clamp_witness:
  "snd (interview_questions (Some \<lparr>b_domain = Some ''DSA'', b_company = None,
          b_difficulty = None, b_question_count = Some 50\<rparr>))
     = Some (InterviewSearchThread ''DSA'' None ''all'' 20)
   \<and> effective_question_count (Some 50) = 20 \<and> effective_question_count (Some 50) \<le> 20"
proof -
  have h: "snd (interview_questions (Some \<lparr>b_domain = Some ''DSA'', b_company = None,
          b_difficulty = None, b_question_count = Some 50\<rparr>))
     = Some (InterviewSearchThread ''DSA'' None ''all'' 20)"
    by code_simp
  from question_count_upper_clamp
         [of "Some 50" "\<lparr>b_domain = Some ''DSA'', b_company = None,
          b_difficulty = None, b_question_count = Some 50\<rparr>" "''DSA''" None "''all''" 20] h
  show ?thesis by simp
qed

text \<open>
  C2 as stated fails: a request with \<^verbatim>\<open>question_count = 0\<close> and a supported domain
  starts the search with the count 0, which is below one.
\<close>

theorem question_count_lower_bound_counterexample:
  "snd (interview_questions (Some \<lparr>b_domain = Some ''DSA'', b_company = None,
          b_difficulty = None, b_question_count = Some 0\<rparr>))
     = Some (InterviewSearchThread ''DSA'' None ''all'' 0)
   \<and> \<not> 1 \<le> effective_question_count (Some 0)"
  by code_simp

text \<open>
  C9.  A job search whose role has fewer than two characters (as sent, or after the
  handler strips it), and an interview search whose domain has fewer than two characters
  or, once stripped, is not one of the supported domains, is answered with status 400 and
  no background thread is started; adapters run in such a thread only.  A missing body
  is answered in the same way.
\<close>

theorem invalid_request_rejected_before_dispatch:
  "(length (get_default (b_job_role d) []) < 2 \<or> length (py_strip (get_default (b_job_role d) [])) < 2
      \<longrightarrow> fst (fst (search_jobs (Some d))) = 400 \<and> snd (search_jobs (Some d)) = None)
   \<and> (length (get_default (b_domain e) []) < 2 \<or> length (py_strip (get_default (b_domain e) [])) < 2
        \<or> py_strip (get_default (b_domain e) []) \<notin> set valid_domains
      \<longrightarrow> fst (fst (interview_questions (Some e))) = 400 \<and> snd (interview_questions (Some e)) = None)
   \<and> search_jobs None = ((400, ''No JSON data provided''), None)
   \<and> interview_questions None = ((400, ''No JSON data provided''), None)"
proof -
  have job: "fst (fst (search_jobs (Some d))) = 400 \<and> snd (search_jobs (Some d)) = None"
    if "length (py_strip (get_default (b_job_role d) [])) < 2"
    using that by (simp add: search_jobs_def Let_def)
  have dom: "fst (fst (interview_questions (Some e))) = 400 \<and> snd (interview_questions (Some e)) = None"
    if "length (py_strip (get_default (b_domain e) [])) < 2
        \<or> py_strip (get_default (b_domain e) []) \<notin> set valid_domains"
    using that by (auto simp: interview_questions_def Let_def)
  have raw: "length (py_strip s) < 2" if "length s < 2" for s
    using that length_py_strip_le [of s] by simp
  show ?thesis
    using job dom raw [of "get_default (b_job_role d) []"] raw [of "get_default (b_domain e) []"]
    by (auto simp: search_jobs_def interview_questions_def)
qed

theorem invalid_request_rejected_before_dispatch_witness:
  "length (get_default (b_job_role \<lparr>b_job_role = Some ''a'', b_location = None, b_filters = None\<rparr>) []) < 2
   \<and> search_jobs (Some \<lparr>b_job_role = Some ''a'', b_location = None, b_filters = None\<rparr>)
       = ((400, ''Job role must be at least 2 characters''), None)
   \<and> py_strip (get_default (b_domain \<lparr>b_domain = Some ''Rust'', b_company = None,
          b_difficulty = None, b_question_count = None\<rparr>) []) \<notin> set valid_domains
   \<and> fst (fst (interview_questions (Some \<lparr>b_domain = Some ''Rust'', b_company = None,
          b_difficulty = None, b_question_count = None\<rparr>))) = 400
   \<and> snd (interview_questions (Some \<lparr>b_domain = Some ''Rust'', b_company = None,
          b_difficulty = None, b_question_count = None\<rparr>)) = None"
proof -
  have h1: "length (get_default (b_job_role \<lparr>b_job_role = Some ''a'', b_location = None, b_filters = None\<rparr>) []) < 2"
    by code_simp
  have h2: "py_strip (get_default (b_domain \<lparr>b_domain = Some ''Rust'', b_company = None,
          b_difficulty = None, b_question_count = None\<rparr>) []) \<notin> set valid_domains"
    by code_simp
  have h3: "search_jobs (Some \<lparr>b_job_role = Some ''a'', b_location = None, b_filters = None\<rparr>)
       = ((400, ''Job role must be at least 2 characters''), None)"
    by code_simp
  from invalid_request_rejected_before_dispatch
         [of "\<lparr>b_job_role = Some ''a'', b_location = None, b_filters = None\<rparr>"
             "\<lparr>b_domain = Some ''Rust'', b_company = None, b_difficulty = None,
               b_question_count = None\<rparr>"] h1 h2 h3
  show ?thesis by blast
qed

text \<open>
  C8.  Deduplication is idempotent: run on its own output, the question deduplicator and
  the deduplication loop of the job pipeline return that output unchanged, item for item
  and in the same order.
\<close>

theorem dedup_idempotent:
  "remove_duplicate_questions (remove_duplicate_questions qs) = remove_duplicate_questions qs
   \<and> dedup_jobs today job_role {} (dedup_jobs today job_role {} js) = dedup_jobs today job_role {} js"
  by (simp only: remove_duplicate_questions_loop dedup_questions_idem dedup_jobs_idem)

text \<open>
  C5, as amended.  The job deduplicator drops every item without a title, a company or a
  URL, and of the remaining items it keeps exactly the first to arrive of each key, in
  arrival order, with its score attached; the question deduplicator keeps exactly the
  first to arrive of each key.  The titles "ML Engineer - Acme" and "ml engineer @ acme"
  of one company have the same key, and of the two jobs only the first is kept.
\<close>

theorem dedup_keeps_first_valid_item:
  "dedup_jobs today job_role {} jobs =
     map (\<lambda>j. j\<lparr>j_relevance_score := Some (calculate_relevance today j job_role)\<rparr>)
       (first_of_each_key create_job_hash (filter is_valid_job jobs))
   \<and> remove_duplicate_questions qs = first_of_each_key question_hash qs
   \<and> create_job_hash job_acme_at = create_job_hash job_acme_dash
   \<and> dedup_jobs today job_role {} [job_acme_dash, job_acme_at] =
       [job_acme_dash\<lparr>j_relevance_score := Some (calculate_relevance today job_acme_dash job_role)\<rparr>]"
  by (simp add: dedup_jobs_first_of_each_key remove_duplicate_questions_spec acme_hashes acme_valid
        first_of_each_key_two)

text \<open>
  C5 as stated fails: when the first job of a key has no URL, the job deduplicator keeps
  the later job of that key, where the rule of the specification keeps the first.
\<close>

theorem dedup_first_item_counterexample:
  "dedup_jobs 738897 ''ML Engineer'' {} [job_no_url, job_acme_at] =
     [job_acme_at\<lparr>j_relevance_score := Some (calculate_relevance 738897 job_acme_at ''ML Engineer'')\<rparr>]
   \<and> create_job_hash job_no_url = create_job_hash job_acme_at
   \<and> first_of_each_key create_job_hash [job_no_url, job_acme_at] = [job_no_url]"
  by (simp add: acme_hashes acme_valid first_of_each_key_two Let_def)

text \<open>
  C1, as amended.  The score of a job is a non-negative integer fixed by the job, the
  query and the current date: the date enters through the recency bonus only, so two
  evaluations agree whenever that bonus agrees, and always when the job has no posting
  date or one that does not parse.  The score of a question is fixed by the question, the
  domain and the company, and is non-negative when its credibility score is.
\<close>

theorem relevance_score_clock:
  "0 \<le> calculate_relevance today j job_role
   \<and> calculate_relevance today j job_role - recency_bonus today (j_posted_date j)
       = calculate_relevance today' j job_role - recency_bonus today' (j_posted_date j)
   \<and> (j_posted_date j = [] \<or> strptime_ymd (j_posted_date j) = None
        \<longrightarrow> calculate_relevance today j job_role = calculate_relevance today' j job_role)
   \<and> (0 \<le> q_credibility_score q \<longrightarrow> 0 \<le> calculate_relevance_score q domain company)"
proof -
  obtain b where b: "0 \<le> b"
      "\<And>t. calculate_relevance t j job_role = b + recency_bonus t (j_posted_date j)"
    using calculate_relevance_split [of j job_role] by blast
  have "recency_bonus today (j_posted_date j) = recency_bonus today' (j_posted_date j)"
    if "j_posted_date j = [] \<or> strptime_ymd (j_posted_date j) = None"
    using that by (auto simp: recency_bonus_def)
  then show ?thesis
    using b recency_bonus_nonneg [of today "j_posted_date j"] calculate_relevance_score_nonneg [of q domain company]
    by (simp add: add_nonneg_nonneg)
qed

theorem relevance_score_clock_witness:
  "j_posted_date job_undated = []
   \<and> calculate_relevance 738897 job_undated ''ML Engineer'' = 69
   \<and> calculate_relevance 739038 job_undated ''ML Engineer'' = 69
   \<and> 0 \<le> q_credibility_score (example_question ''What is a join?'' 9)
   \<and> 0 \<le> calculate_relevance_score (example_question ''What is a join?'' 9) ''SQL'' None"
proof -
  have c: "0 \<le> q_credibility_score (example_question ''What is a join?'' 9)"
    by (simp add: example_question_def)
  from relevance_score_clock [of 738897 job_undated "''ML Engineer''" 739038
         "example_question ''What is a join?'' 9" "''SQL''" None] undated_scores c
  show ?thesis by simp
qed

text \<open>
  C1 as stated fails: the same job and the same query score 77 on 2024-01-12 and 69 on
  2024-06-01, because the job's posting date of 2024-01-10 is compared with the clock.
\<close>

theorem relevance_score_clock_counterexample:
  "calculate_relevance 738897 job_acme_dash ''ML Engineer'' = 77
   \<and> calculate_relevance 739038 job_acme_dash ''ML Engineer'' = 69"
  by code_simp


text \<open>
  C3 does not hold of the code.  The loop names the results by their position in the order
  of completion: when the Naukri task completes before the LinkedIn task, the two jobs
  that the Naukri adapter returned are stored under \<open>linkedin\<close> and the job of the LinkedIn
  adapter under \<open>naukri\<close>, and the counts of the summary follow.  (Of the three jobs the
  ranking step scores the first to arrive; the second has no URL and the third repeats the
  key of the first.)
\<close>

theorem sources_follow_completion_order:
  "sr_sources (comprehensive_job_search accepting_sink 738897 [1, 0, 2, 3, 4] example_apis
      ''ML Engineer'' ''Pune'')
   = [(''linkedin'', [job_acme_at\<lparr>j_relevance_score := Some 75\<rparr>, job_no_url]),
      (''naukri'', [job_acme_dash]),
      (''indeed'', []), (''freshersworld'', []), (''monster'', [])]
   \<and> run_outcome (linkedin_api example_apis) = AdapterReturns [job_acme_dash]
   \<and> run_outcome (naukri_api example_apis) = AdapterReturns [job_acme_at, job_no_url]
   \<and> map_option source_breakdown
        (sr_summary (comprehensive_job_search accepting_sink 738897 [1, 0, 2, 3, 4] example_apis
           ''ML Engineer'' ''Pune''))
      = Some [(''linkedin'', 2), (''naukri'', 1), (''indeed'', 0), (''freshersworld'', 0), (''monster'', 0)]"
proof -
  have a: "sr_sources (comprehensive_job_search accepting_sink 738897 [1, 0, 2, 3, 4] example_apis
      ''ML Engineer'' ''Pune'')
     = [(''linkedin'', [job_acme_at\<lparr>j_relevance_score := Some 75\<rparr>, job_no_url]),
        (''naukri'', [job_acme_dash]),
        (''indeed'', []), (''freshersworld'', []), (''monster'', [])]"
    unfolding session_sources [OF sink_facts(1) sink_facts(2)] example_collect fst_conv snd_conv
      example_marks
    by simp
  have b: "run_outcome (linkedin_api example_apis) = AdapterReturns [job_acme_dash]"
    "run_outcome (naukri_api example_apis) = AdapterReturns [job_acme_at, job_no_url]"
    by (simp_all add: example_apis_def)
  have c: "map_option source_breakdown
        (sr_summary (comprehensive_job_search accepting_sink 738897 [1, 0, 2, 3, 4] example_apis
           ''ML Engineer'' ''Pune''))
      = Some [(''linkedin'', 2), (''naukri'', 1), (''indeed'', 0), (''freshersworld'', 0), (''monster'', 0)]"
    unfolding session_summary [OF sink_facts(1) sink_facts(2)] a by simp
  from a b c show ?thesis by blast
qed




text \<open>
  C7, as amended.  For a requested count that is not negative the engine emits at most
  that many questions, hence at most the smaller of the count and the hard maximum of
  twenty; for every count it emits at most ten.  The job pipeline returns at most fifty
  jobs, and so does every completed session.
\<close>

theorem result_length_capped:
  "(0 \<le> question_count \<longrightarrow>
      int (length (ir_questions (engine_search_interview_questions solve search_queries domain company
                                   difficulty question_count))) \<le> min question_count 20)
   \<and> length (ir_questions (engine_search_interview_questions solve search_queries domain company
                                   difficulty question_count)) \<le> 10
   \<and> length (remove_duplicates_and_rank today jobs job_role) \<le> 50
   \<and> (sr_search_status (comprehensive_job_search sink today order apis job_role location) = ''completed''
        \<longrightarrow> length (sr_all_jobs (comprehensive_job_search sink today order apis job_role location)) \<le> 50)"
proof -
  let ?qs = "ir_questions (engine_search_interview_questions solve search_queries domain company
                             difficulty question_count)"
  have ten: "length ?qs \<le> 10" by (rule engine_at_most_ten)
  have cnt: "int (length ?qs) \<le> question_count" if "0 \<le> question_count"
    unfolding engine_questions_eq using that by (rule py_slice_to_nonneg)
  have jobs: "length (remove_duplicates_and_rank today jobs job_role) \<le> 50"
    by (simp add: remove_duplicates_and_rank_def Let_def)
  from ten cnt jobs session_length [of sink today order apis job_role location]
  show ?thesis by simp
qed

theorem result_length_capped_witness:
  "(0::int) \<le> 1
   \<and> int (length (ir_questions (engine_search_interview_questions (\<lambda>q. ''answer'')
        (Some [QueryReturns (Some [([example_question ''What is a join?'' 9,
                                     example_question ''What is a view?'' 9], [])])])
        ''SQL'' None ''all'' 1))) \<le> min 1 20
   \<and> sr_search_status (comprehensive_job_search accepting_sink 738897 [2, 0, 4, 1, 3]
        example_apis_partial ''ML Engineer'' ''Pune'') = ''completed''
   \<and> length (sr_all_jobs (comprehensive_job_search accepting_sink 738897 [2, 0, 4, 1, 3]
        example_apis_partial ''ML Engineer'' ''Pune'')) \<le> 50"
proof -
  have s: "sr_search_status (comprehensive_job_search accepting_sink 738897 [2, 0, 4, 1, 3]
        example_apis_partial ''ML Engineer'' ''Pune'') = ''completed''"
    by (simp add: session_status sink_facts)
  from result_length_capped [where question_count = 1 and solve = "\<lambda>q. ''answer''"
      and search_queries = "Some [QueryReturns (Some [([example_question ''What is a join?'' 9,
                                     example_question ''What is a view?'' 9], [])])]"
      and domain = "''SQL''" and company = None and difficulty = "''all''"
      and sink = accepting_sink and today = 738897 and order = "[2, 0, 4, 1, 3]"
      and apis = example_apis_partial and job_role = "''ML Engineer''" and location = "''Pune''"] s
  show ?thesis by simp
qed

text \<open>
  C7 as stated fails: a request with \<^verbatim>\<open>question_count = -1\<close> starts the search with the
  count -1, and from two relevant questions the engine emits one, which is more than the
  smaller of -1 and twenty.
\<close>

theorem result_length_cap_counterexample:
  "snd (interview_questions (Some \<lparr>b_domain = Some ''SQL'', b_company = None,
          b_difficulty = None, b_question_count = Some (- 1)\<rparr>))
     = Some (InterviewSearchThread ''SQL'' None ''all'' (- 1))
   \<and> ir_questions (engine_search_interview_questions (\<lambda>q. ''answer'')
        (Some [QueryReturns (Some [([example_question ''What is a join?'' 9,
                                     example_question ''What is a view?'' 9], [])])])
        ''SQL'' None ''all'' (- 1))
     = [(example_question ''What is a join?'' 9)\<lparr>q_solution := ''answer'', q_relevance_score := Some 14\<rparr>]
   \<and> \<not> int (length (ir_questions (engine_search_interview_questions (\<lambda>q. ''answer'')
        (Some [QueryReturns (Some [([example_question ''What is a join?'' 9,
                                     example_question ''What is a view?'' 9], [])])])
        ''SQL'' None ''all'' (- 1)))) \<le> min (- 1) 20"
proof -
  have route: "snd (interview_questions (Some \<lparr>b_domain = Some ''SQL'', b_company = None,
          b_difficulty = None, b_question_count = Some (- 1)\<rparr>))
     = Some (InterviewSearchThread ''SQL'' None ''all'' (- 1))"
    by code_simp
  show ?thesis unfolding engine_negative_count using route by simp
qed

end
